theory Spec2Isabelle
  imports Main "HOL-Library.Word"
begin

section \<open>The debug commands of zoekt-sourcegraph-indexserver\<close>

text \<open>
  This theory embeds \<^verbatim>\<open>cmd/zoekt-sourcegraph-indexserver/debug.go\<close>: the commands
  that run the index server in a non daemon mode for testing and debugging. Each
  \<^verbatim>\<open>Exec\<close> closure of the file is a function from the flag variables it captures, its
  positional arguments and the world before the call to the returned error and the world
  after the call. Every call that leaves the file (to the server, the merge code, the
  shard printers, the logger, HTTP, stdout) is recorded, in order, in the world's trace.
\<close>

subsection \<open>Values\<close>

type_synonym int64 = "64 word"
type_synonym uint32 = "32 word"

text \<open>\<^verbatim>\<open>strconv.NumError\<close> carries one of two causes.\<close>

datatype num_err = ErrSyntax | ErrRange

text \<open>
  Errors are values. \<open>Errorf\<close> is \<^verbatim>\<open>fmt.Errorf\<close> with a constant message, the three
  wrapping constructors are the three \<^verbatim>\<open>fmt.Errorf\<close> calls of \<^verbatim>\<open>debugQueue\<close> that
  embed another error, \<open>NumError\<close> is what \<^verbatim>\<open>strconv.Atoi\<close> returns (function name,
  input, cause), and \<open>External\<close> is an error handed back by code outside this file.
\<close>

datatype error =
    Errorf string
  | NumError string string num_err
  | External string
  | ParsingURL string error
  | ConstructingRequest error
  | WritingToStdout error

text \<open>
  \<^verbatim>\<open>rootConfig\<close> and \<^verbatim>\<open>Server\<close> are declared elsewhere in the package. Of the server
  this file reads \<^verbatim>\<open>IndexDir\<close> only; the configuration is filled in from the root flags
  and is kept as the list of flag names with the text of their values.
\<close>

type_synonym rootConfig = "(string \<times> string) list"

record Server =
  IndexDir :: string

text \<open>An HTTP request as \<^verbatim>\<open>debugQueue\<close> builds it: method, URL, headers, no body.\<close>

record request =
  Method :: string
  URL :: string
  Header :: "(string \<times> string) list"

text \<open>
  A flag as it is declared on a \<^verbatim>\<open>flag.FlagSet\<close>: \<^verbatim>\<open>fs.Bool\<close>, \<^verbatim>\<open>fs.Int64\<close>,
  \<^verbatim>\<open>fs.String\<close> and \<^verbatim>\<open>fs.Uint\<close> take the name, the default value and the usage text.
  \<open>RootFlag\<close> is a flag that \<^verbatim>\<open>conf.registerRootFlags\<close> declares (name and the text
  of its default); that method is not part of this file.
\<close>

datatype flag =
    BoolFlag string bool string
  | Int64Flag string int64 string
  | StringFlag string string string
  | UintFlag string "64 word" string
  | RootFlag string string

record flag_FlagSet =
  fs_name :: string
  fs_flags :: "flag list"

definition NewFlagSet :: "string \<Rightarrow> flag list \<Rightarrow> flag_FlagSet" where
  "NewFlagSet name flags = \<lparr>fs_name = name, fs_flags = flags\<rparr>"

text \<open>
  The flag variables: the values behind the pointers that the \<^verbatim>\<open>Exec\<close> closures
  capture, as flag parsing has left them. \<open>index_conf\<close>, \<open>list_conf\<close> and
  \<open>listIndexed_conf\<close> are the \<^verbatim>\<open>conf\<close> of \<^verbatim>\<open>debugIndex\<close>, \<^verbatim>\<open>debugList\<close> and
  \<^verbatim>\<open>debugListIndexed\<close>; \<open>excludeIndexed\<close> belongs to \<^verbatim>\<open>debugList\<close>; \<open>simulate\<close>,
  \<open>targetSize\<close>, \<open>index\<close> and \<open>dbg\<close> belong to \<^verbatim>\<open>debugMerge\<close>; \<open>hostname\<close> and
  \<open>port\<close> belong to \<^verbatim>\<open>debugQueue\<close>.
\<close>

record flag_vars =
  index_conf :: rootConfig
  list_conf :: rootConfig
  excludeIndexed :: bool
  listIndexed_conf :: rootConfig
  simulate :: bool
  targetSize :: int64
  index :: string
  dbg :: bool
  hostname :: string
  port :: "64 word"

subsection \<open>The world: a trace of the calls that leave the file\<close>

datatype event =
    NewServer rootConfig
  | ForceIndex Server uint32
  | LogPrintln string
  | PrintShardStats string
  | PrintMetaData string
  | DoMerge string int64 bool
  | ListIndexed string
  | SourcegraphList Server "uint32 list"
  | FmtPrintln uint32
  | HttpDo request
  | StdoutWrite string
  | BodyClose

text \<open>
  \<open>debug\<close> is the package-level logger of that name: \<open>True\<close> once \<^verbatim>\<open>debugMerge\<close> has
  replaced it by a logger on stderr.
\<close>

record world =
  trace :: "event list"
  debug :: bool

definition call :: "event \<Rightarrow> world \<Rightarrow> world" where
  "call e w = w\<lparr>trace := trace w @ [e]\<rparr>"

text \<open>The calls that one run has added to the trace of the world \<open>w\<close> it started in.\<close>

definition new_calls :: "world \<Rightarrow> world \<Rightarrow> event list" where
  "new_calls w w' = drop (length (trace w)) (trace w')"

type_synonym exec_result = "error option \<times> world"

subsection \<open>The collaborators\<close>

text \<open>
  The functions below are defined in other files of the package, in other packages or
  in the standard library; what they return in one run of a command is a parameter of
  the model. \<open>urlParse\<close> is \<^verbatim>\<open>url.Parse\<close> followed by \<^verbatim>\<open>String()\<close> on the parsed address;
  \<open>newRequestError\<close> is the error, if any, of \<^verbatim>\<open>http.NewRequestWithContext\<close>;
  \<open>httpDo\<close> is \<^verbatim>\<open>http.DefaultClient.Do\<close> and gives the response body; \<open>copyFault\<close>
  says whether \<^verbatim>\<open>io.Copy\<close> to stdout stops early, after how many bytes and with
  which error. \<open>registerRootFlags\<close> lists the flags that the method of that name
  declares.
\<close>

record env =
  newServer :: "rootConfig \<Rightarrow> error + Server"
  forceIndex :: "Server \<Rightarrow> uint32 \<Rightarrow> string \<times> error option"
  printShardStats :: "string \<Rightarrow> error option"
  printMetaData :: "string \<Rightarrow> error option"
  doMerge :: "string \<Rightarrow> int64 \<Rightarrow> bool \<Rightarrow> error option"
  listIndexed :: "string \<Rightarrow> uint32 list"
  sourcegraphList :: "Server \<Rightarrow> uint32 list \<Rightarrow> error + uint32 list"
  urlParse :: "string \<Rightarrow> error + string"
  newRequestError :: "string \<Rightarrow> string \<Rightarrow> error option"
  httpDo :: "request \<Rightarrow> error + string"
  copyFault :: "string \<Rightarrow> (nat \<times> error) option"
  getEnvWithDefaultInt64 :: "string \<Rightarrow> int64 \<Rightarrow> int64"
  getEnvWithDefaultString :: "string \<Rightarrow> string \<Rightarrow> string"
  srcLogLevelIsDebug :: bool
  DefaultDir :: string
  registerRootFlags :: "flag list"

subsection \<open>\<^verbatim>\<open>strconv.Atoi\<close>\<close>

text \<open>
  Go's \<^verbatim>\<open>strconv.Atoi(s)\<close> is \<^verbatim>\<open>ParseInt(s, 10, 0)\<close> (with a fast path for short inputs
  that returns the same): an optional sign, then one or more decimal digits, the value
  within the range of \<^verbatim>\<open>int\<close>, here 64 bits. \<open>ParseUint\<close> is the digit loop of
  \<^verbatim>\<open>strconv.ParseUint\<close> in base 10 with its two overflow checks.
\<close>

definition is_digit :: "char \<Rightarrow> bool" where
  "is_digit c = (48 \<le> (of_char c :: nat) \<and> (of_char c :: nat) \<le> 57)"

definition digit_val :: "char \<Rightarrow> nat" where
  "digit_val c = of_char c - 48"

definition maxUint64 :: nat where
  "maxUint64 = 2 ^ 64 - 1"

fun ParseUint_loop :: "nat \<Rightarrow> string \<Rightarrow> num_err + nat" where
  "ParseUint_loop n [] = Inr n"
| "ParseUint_loop n (c # cs) =
     (if \<not> is_digit c then Inl ErrSyntax
      else if n \<ge> maxUint64 div 10 + 1 then Inl ErrRange
      else if n * 10 + digit_val c > maxUint64 then Inl ErrRange
      else ParseUint_loop (n * 10 + digit_val c) cs)"

definition ParseUint :: "string \<Rightarrow> num_err + nat" where
  "ParseUint s = (if s = [] then Inl ErrSyntax else ParseUint_loop 0 s)"

definition ParseInt :: "string \<Rightarrow> num_err + int" where
  "ParseInt s =
     (if s = [] then Inl ErrSyntax
      else
        let neg = (hd s = CHR ''-'');
            s1 = (if hd s = CHR ''+'' \<or> hd s = CHR ''-'' then tl s else s)
        in case ParseUint s1 of
             Inl ErrSyntax \<Rightarrow> Inl ErrSyntax
           | Inl ErrRange \<Rightarrow> Inl ErrRange
           | Inr un \<Rightarrow>
               if \<not> neg \<and> un \<ge> 2 ^ 63 then Inl ErrRange
               else if neg \<and> un > 2 ^ 63 then Inl ErrRange
               else Inr (if neg then - int un else int un))"

definition Atoi :: "string \<Rightarrow> error + int" where
  "Atoi s = (case ParseInt s of
               Inl e \<Rightarrow> Inl (NumError ''Atoi'' s e)
             | Inr n \<Rightarrow> Inr n)"

text \<open>The conversion \<^verbatim>\<open>uint32(id)\<close> of an \<^verbatim>\<open>int\<close> keeps the low 32 bits.\<close>

definition to_uint32 :: "int \<Rightarrow> uint32" where
  "to_uint32 n = word_of_int n"

subsection \<open>\<^verbatim>\<open>debugIndex\<close>, \<^verbatim>\<open>debugTrigrams\<close>, \<^verbatim>\<open>debugMeta\<close>\<close>

definition debugIndex_Exec :: "env \<Rightarrow> rootConfig \<Rightarrow> string list \<Rightarrow> world \<Rightarrow> exec_result" where
  "debugIndex_Exec env conf args w =
     (if length args = 0 then (Some (Errorf ''missing repository ID''), w)
      else
        let w1 = call (NewServer conf) w in
        case newServer env conf of
          Inl err \<Rightarrow> (Some err, w1)
        | Inr s \<Rightarrow>
            (case Atoi (hd args) of
               Inl err \<Rightarrow> (Some err, w1)
             | Inr id' \<Rightarrow>
                 let w2 = call (ForceIndex s (to_uint32 id')) w1;
                     (msg, err) = forceIndex env s (to_uint32 id');
                     w3 = call (LogPrintln msg) w2
                 in case err of
                      Some e \<Rightarrow> (Some e, w3)
                    | None \<Rightarrow> (None, w3)))"

definition debugTrigrams_Exec :: "env \<Rightarrow> string list \<Rightarrow> world \<Rightarrow> exec_result" where
  "debugTrigrams_Exec env args w =
     (if length args = 0 then (Some (Errorf ''missing path to shard''), w)
      else (printShardStats env (hd args), call (PrintShardStats (hd args)) w))"

definition debugMeta_Exec :: "env \<Rightarrow> string list \<Rightarrow> world \<Rightarrow> exec_result" where
  "debugMeta_Exec env args w =
     (if length args = 0 then (Some (Errorf ''missing path to shard''), w)
      else (printMetaData env (hd args), call (PrintMetaData (hd args)) w))"

subsection \<open>\<^verbatim>\<open>debugMerge\<close>\<close>

text \<open>
  \<^verbatim>\<open>*targetSize*1024*1024\<close> is a product of \<^verbatim>\<open>int64\<close> values: it wraps around. The
  positional arguments are not read.
\<close>

definition debugMerge_Exec ::
  "env \<Rightarrow> bool \<Rightarrow> int64 \<Rightarrow> string \<Rightarrow> bool \<Rightarrow> string list \<Rightarrow> world \<Rightarrow> exec_result" where
  "debugMerge_Exec env simulate' targetSize' index' dbg' args w =
     (let w1 = (if dbg' then w\<lparr>debug := True\<rparr> else w);
          w2 = call (DoMerge index' (targetSize' * 1024 * 1024) simulate') w1
      in (doMerge env index' (targetSize' * 1024 * 1024) simulate', w2))"

subsection \<open>\<^verbatim>\<open>debugList\<close>, \<^verbatim>\<open>debugListIndexed\<close>\<close>

definition Println_all :: "uint32 list \<Rightarrow> world \<Rightarrow> world" where
  "Println_all rs w = foldl (\<lambda>w' r. call (FmtPrintln r) w') w rs"

definition debugList_Exec :: "env \<Rightarrow> rootConfig \<Rightarrow> bool \<Rightarrow> string list \<Rightarrow> world \<Rightarrow> exec_result" where
  "debugList_Exec env conf excludeIndexed' args w =
     (let w1 = call (NewServer conf) w in
      case newServer env conf of
        Inl err \<Rightarrow> (Some err, w1)
      | Inr s \<Rightarrow>
          let (indexed, w2) =
                (if \<not> excludeIndexed'
                 then (listIndexed env (IndexDir s), call (ListIndexed (IndexDir s)) w1)
                 else ([], w1));
              w3 = call (SourcegraphList s indexed) w2
          in case sourcegraphList env s indexed of
               Inl err \<Rightarrow> (Some err, w3)
             | Inr ids \<Rightarrow> (None, Println_all ids w3))"

definition debugListIndexed_Exec :: "env \<Rightarrow> rootConfig \<Rightarrow> string list \<Rightarrow> world \<Rightarrow> exec_result" where
  "debugListIndexed_Exec env conf args w =
     (let w1 = call (NewServer conf) w in
      case newServer env conf of
        Inl err \<Rightarrow> (Some err, w1)
      | Inr s \<Rightarrow>
          let indexed = listIndexed env (IndexDir s);
              w2 = call (ListIndexed (IndexDir s)) w1
          in (None, Println_all indexed w2))"

subsection \<open>\<^verbatim>\<open>debugQueue\<close>\<close>

text \<open>\<^verbatim>\<open>%d\<close> of an unsigned value: its decimal digits.\<close>

function show_nat :: "nat \<Rightarrow> string" where
  "show_nat n =
     (if n < 10 then [''0123456789'' ! n]
      else show_nat (n div 10) @ [''0123456789'' ! (n mod 10)])"
  by pat_completeness auto
termination
  by (relation "measure id") auto

text \<open>
  \<^verbatim>\<open>http.NewRequestWithContext(ctx, method, url, nil)\<close> fails or gives the request with
  that method and URL and no header; \<^verbatim>\<open>Header.Set\<close> replaces the values of a key;
  \<^verbatim>\<open>io.Copy\<close> writes the whole body, or a prefix of it when it fails.
\<close>

definition NewRequestWithContext :: "env \<Rightarrow> string \<Rightarrow> string \<Rightarrow> error + request" where
  "NewRequestWithContext env method url =
     (case newRequestError env method url of
        Some err \<Rightarrow> Inl err
      | None \<Rightarrow> Inr \<lparr>Method = method, URL = url, Header = []\<rparr>)"

definition Header_Set :: "string \<Rightarrow> string \<Rightarrow> request \<Rightarrow> request" where
  "Header_Set k v r = r\<lparr>Header := filter (\<lambda>kv. fst kv \<noteq> k) (Header r) @ [(k, v)]\<rparr>"

definition ioCopy :: "env \<Rightarrow> string \<Rightarrow> string \<times> error option" where
  "ioCopy env body =
     (case copyFault env body of
        None \<Rightarrow> (body, None)
      | Some (n, err) \<Rightarrow> (take n body, Some err))"

text \<open>\<^verbatim>\<open>fmt.Sprintf("http://%s:%d/debug/queue", *hostname, *port)\<close>\<close>

definition Sprintf_url :: "string \<Rightarrow> 64 word \<Rightarrow> string" where
  "Sprintf_url hostname' port' =
     ''http://'' @ hostname' @ '':'' @ show_nat (unat port') @ ''/debug/queue''"

definition debugQueue_Exec :: "env \<Rightarrow> string \<Rightarrow> 64 word \<Rightarrow> string list \<Rightarrow> world \<Rightarrow> exec_result" where
  "debugQueue_Exec env hostname' port' args w =
     (let raw = Sprintf_url hostname' port' in
      case urlParse env raw of
        Inl err \<Rightarrow> (Some (ParsingURL raw err), w)
      | Inr address \<Rightarrow>
          (case NewRequestWithContext env ''GET'' address of
             Inl err \<Rightarrow> (Some (ConstructingRequest err), w)
           | Inr request0 \<Rightarrow>
               let request' = Header_Set ''Accept'' ''text/plain'' request0;
                   w1 = call (HttpDo request') w
               in case httpDo env request' of
                    Inl err \<Rightarrow> (Some err, w1)
                  | Inr body \<Rightarrow>
                      let (written, err) = ioCopy env body;
                          w2 = call (StdoutWrite written) w1;
                          w3 = call BodyClose w2
                      in case err of
                           Some e \<Rightarrow> (Some (WritingToStdout e), w3)
                         | None \<Rightarrow> (None, w3)))"

subsection \<open>The commands\<close>

text \<open>
  An \<^verbatim>\<open>ffcli.Command\<close> with the fields this file sets. \<open>FlagSet\<close> and \<open>Exec\<close> are
  \<open>None\<close> where the source leaves them \<^verbatim>\<open>nil\<close>. An \<open>Exec\<close> reads the flag variables
  it has captured, so it takes them as its first argument.
\<close>

datatype Command = Command
  (Name: string)
  (ShortUsage: string)
  (ShortHelp: string)
  (LongHelp: string)
  (FlagSet: "flag_FlagSet option")
  (Exec: "(flag_vars \<Rightarrow> string list \<Rightarrow> world \<Rightarrow> exec_result) option")
  (Subcommands: "Command list")

definition debugIndex :: "env \<Rightarrow> Command" where
  "debugIndex env =
     (let fs = NewFlagSet ''debug index'' (registerRootFlags env) in
      Command ''index'' ''index [flags] <repository ID>'' ''index a repository'' []
        (Some fs)
        (Some (\<lambda>vars args. debugIndex_Exec env (index_conf vars) args))
        [])"

definition debugTrigrams :: "env \<Rightarrow> Command" where
  "debugTrigrams env =
     Command ''trigrams'' ''trigrams <path/to/shard>'' ''list all the trigrams in a shard'' []
       None
       (Some (\<lambda>vars args. debugTrigrams_Exec env args))
       []"

definition debugMeta :: "env \<Rightarrow> Command" where
  "debugMeta env =
     Command ''meta'' ''meta <path/to/shard>'' ''output index and repo metadata'' []
       None
       (Some (\<lambda>vars args. debugMeta_Exec env args))
       []"

definition debugMerge :: "env \<Rightarrow> Command" where
  "debugMerge env =
     (let fs = NewFlagSet ''debug merge''
            [BoolFlag ''simulate'' False ''if set, merging will be simulated'',
             Int64Flag ''merge_target_size'' (getEnvWithDefaultInt64 env ''SRC_TARGET_SIZE'' 2000)
               ''the target size of compound shards in MiB'',
             StringFlag ''index'' (getEnvWithDefaultString env ''DATA_DIR'' (DefaultDir env))
               ''set index directory to use'',
             BoolFlag ''debug'' (srcLogLevelIsDebug env) ''turn on more verbose logging.'']
      in
      Command ''merge'' ''merge [flags] <dir>'' ''run a full merge operation inside dir'' []
        (Some fs)
        (Some (\<lambda>vars args.
           debugMerge_Exec env (simulate vars) (targetSize vars) (index vars) (dbg vars) args))
        [])"

definition debugList :: "env \<Rightarrow> Command" where
  "debugList env =
     (let fs = NewFlagSet ''debug list''
            (registerRootFlags env @
             [BoolFlag ''exclude_indexed'' False
                (''Do not send the current index to Sourcegraph. When set the repositories '' @
                 ''listed will not include transient repositories. Transient repositories are '' @
                 ''currently indexed on this replica, but will be moved to another.'')])
      in
      Command ''list'' ''list [flags]''
        ''list the repositories that are OWNED by this indexserver'' []
        (Some fs)
        (Some (\<lambda>vars args. debugList_Exec env (list_conf vars) (excludeIndexed vars) args))
        [])"

definition debugListIndexed :: "env \<Rightarrow> Command" where
  "debugListIndexed env =
     (let fs = NewFlagSet ''debug list-indexed'' (registerRootFlags env) in
      Command ''list-indexed'' ''list-indexed [flags]''
        ''list the repositories that are INDEXED by this indexserver'' []
        (Some fs)
        (Some (\<lambda>vars args. debugListIndexed_Exec env (listIndexed_conf vars) args))
        [])"

text \<open>\<^verbatim>\<open>strings.TrimSpace\<close> on ASCII text: white space is cut off at both ends.\<close>

definition isSpace :: "char \<Rightarrow> bool" where
  "isSpace c = (c \<in> set [CHR 0x09, CHR 0x0A, CHR 0x0B, CHR 0x0C, CHR 0x0D, CHR '' ''])"

definition TrimSpace :: "string \<Rightarrow> string" where
  "TrimSpace s = rev (dropWhile isSpace (rev (dropWhile isSpace s)))"

definition longHelp :: string where
  \<open>longHelp =
     ''\<newline>'' @
     ''COLUMN HEADERS\<newline>'' @
     ''  Position     zero-indexed position of this repository in the indexing queue (sorted by priority).\<newline>'' @
     ''  Name         name for this repository\<newline>'' @
     ''  ID           ID for this repository\<newline>'' @
     ''  IsOnQueue    "true" if this repository has an outstanding indexing job that's enqueued for future work. "false" \<newline>'' @
     ''               otherwise.\<newline>'' @
     ''  Age          amount of time that this repository has spent in the indexing queue since its outstanding indexing job \<newline>'' @
     ''               was first added (ignoring any job metadata updates that may have occurred while it was still enqueued). \<newline>'' @
     ''               A "-" is printed instead if this repository doesn't have an outstanding job.\<newline>'' @
     ''  Branches     comma-separated list of branches in $BRANCH_NAME@$COMMIT_HASH format. \<newline>'' @
     ''               If the repository has a job on the indexing queue, this list represents the desired set of \<newline>'' @
     ''               branches + associated commits that will be process during the next indexing job. \<newline>'' @
     ''               However, if the repository  doesn't have a job on the queue, this list represents the set of \<newline>'' @
     ''               branches + associated commits that was indexed during its most recent indexing job.\<newline>''\<close>

definition debugQueue :: "env \<Rightarrow> Command" where
  "debugQueue env =
     (let fs = NewFlagSet ''debug queue''
            [StringFlag ''hostname'' ''localhost''
               ''the hostname of the zoekt-sourcegraph-indexserver instance to connect to'',
             UintFlag ''port'' 6072
               ''the port of the zoekt-sourcegraph-indexserver instance to connect to'']
      in
      Command ''queue'' ''queue [flags]''
        ''list the repositories in the indexing queue, sorted by descending priority''
        (TrimSpace longHelp)
        (Some fs)
        (Some (\<lambda>vars args. debugQueue_Exec env (hostname vars) (port vars) args))
        [])"

definition debugCmd :: "env \<Rightarrow> Command" where
  "debugCmd env =
     (let fs = NewFlagSet ''debug'' [] in
      Command ''debug'' ''debug <subcommand>'' ''a set of commands for debugging and testing'' []
        (Some fs)
        None
        [debugIndex env,
         debugList env,
         debugListIndexed env,
         debugMerge env,
         debugMeta env,
         debugTrigrams env,
         debugQueue env])"

subsection \<open>Looking at the command table\<close>

text \<open>
  Whether a call is a call of \<^verbatim>\<open>http.DefaultClient.Do\<close>. One such call is not one
  request on the wire: \<^verbatim>\<open>Do\<close> follows redirects, so the client may send further
  requests, to addresses that the answering server chooses, before \<^verbatim>\<open>Do\<close> returns. The
  trace records the call and the request handed to it, not what the client sends after.
\<close>

definition is_Do_call :: "event \<Rightarrow> bool" where
  "is_Do_call e = (case e of HttpDo r \<Rightarrow> True | _ \<Rightarrow> False)"

text \<open>
  The subcommand of a given name, and the flag set a command parses with: the package
  ffcli gives a command whose \<^verbatim>\<open>FlagSet\<close> is \<^verbatim>\<open>nil\<close> an empty flag set named after the
  command before it parses.
\<close>

definition lookup_subcommand :: "Command \<Rightarrow> string \<Rightarrow> Command option" where
  "lookup_subcommand c name = find (\<lambda>sub. Name sub = name) (Subcommands c)"

definition parse_FlagSet :: "Command \<Rightarrow> flag_FlagSet" where
  "parse_FlagSet c = (case FlagSet c of None \<Rightarrow> NewFlagSet (Name c) [] | Some fs \<Rightarrow> fs)"

text \<open>
  The column names of a help text: the first word of each line that is indented by
  exactly two spaces.
\<close>

fun split_lines :: "string \<Rightarrow> string list" where
  "split_lines [] = [[]]"
| "split_lines (c # cs) =
     (if c = CHR 0x0A then [] # split_lines cs
      else case split_lines cs of
             [] \<Rightarrow> [[c]]
           | l # ls \<Rightarrow> (c # l) # ls)"

definition is_column_line :: "string \<Rightarrow> bool" where
  "is_column_line l =
     (take 2 l = ''  '' \<and> length l > 2 \<and> l ! 2 \<noteq> CHR '' '')"

definition help_columns :: "string \<Rightarrow> string list" where
  "help_columns h =
     map (\<lambda>l. takeWhile (\<lambda>c. c \<noteq> CHR '' '') (drop 2 l)) (filter is_column_line (split_lines h))"

subsection \<open>Repository IDs as text\<close>



section \<open>The merge engine and the indexing queue, from the specification\<close>

subsection \<open>The merge engine\<close>

text \<open>
  Modelled from the spec: \<^verbatim>\<open>doMerge\<close> is called by \<^verbatim>\<open>debugMerge\<close> and defined in
  another file of the package. What follows is the merge engine of sections 3, 4.2 and 6
  of the specification: \<open>ShardMeta\<close>, \<open>Bin\<close> and \<open>MergePlan\<close>, the greedy first-fit
  \<open>Plan\<close> over the shards in a repeatable order (here: the order of the directory
  listing), and \<open>Execute\<close>, which for each bin of more than one shard writes the merged
  shard to a temporary path, replaces it into the target path and then removes the
  inputs, or does none of this when \<open>Simulate\<close> is set, and reports the same either way.
  The specification does not say how a compound shard is named: \<open>naming\<close> is a
  parameter. I/O failures are not modelled.
\<close>

record shard_file =
  file_repos :: "uint32 list"
  file_data :: string
  file_generation :: nat

text \<open>A shard directory lists its files by name; the store maps a directory to its listing.\<close>

type_synonym shard_dir = "(string \<times> shard_file) list"
type_synonym shard_store = "string \<Rightarrow> shard_dir"

record ShardMeta =
  Path :: string
  Size :: int
  RepositoryIDs :: "uint32 list"
  Generation :: nat

record Bin =
  InputShards :: "ShardMeta list"
  TargetPath :: string

record MergePlan =
  Bins :: "Bin list"
  TargetSize :: int
  Simulate :: bool

definition scan :: "shard_dir \<Rightarrow> ShardMeta list" where
  "scan d =
     map (\<lambda>(p, f). \<lparr>Path = p, Size = int (length (file_data f)),
                     RepositoryIDs = file_repos f, Generation = file_generation f\<rparr>) d"

definition bin_size :: "ShardMeta list \<Rightarrow> int" where
  "bin_size b = sum_list (map Size b)"

definition fits :: "int \<Rightarrow> ShardMeta \<Rightarrow> ShardMeta list \<Rightarrow> bool" where
  "fits t s b =
     (bin_size b + Size s \<le> t \<and>
      list_all (\<lambda>r. r \<notin> set (concat (map RepositoryIDs b))) (RepositoryIDs s))"

fun place :: "int \<Rightarrow> ShardMeta \<Rightarrow> ShardMeta list list \<Rightarrow> ShardMeta list list" where
  "place t s [] = [[s]]"
| "place t s (b # bs) = (if fits t s b then (b @ [s]) # bs else b # place t s bs)"

definition pack :: "int \<Rightarrow> ShardMeta list \<Rightarrow> ShardMeta list list" where
  "pack t shards =
     foldl (\<lambda>bins s. if Size s \<ge> t then bins @ [[s]] else place t s bins) [] shards"

definition Plan :: "(ShardMeta list \<Rightarrow> string) \<Rightarrow> ShardMeta list \<Rightarrow> int \<Rightarrow> bool \<Rightarrow> MergePlan" where
  "Plan naming shards targetSize' simulate' =
     \<lparr>Bins = map (\<lambda>b. \<lparr>InputShards = b,
                        TargetPath = (if length b > 1 then naming b else Path (hd b))\<rparr>)
               (pack targetSize' shards),
      TargetSize = targetSize',
      Simulate = simulate'\<rparr>"

text \<open>The file operations of one bin, each guarded by the plan's \<open>Simulate\<close> flag.\<close>

definition write_file :: "bool \<Rightarrow> string \<Rightarrow> shard_file \<Rightarrow> shard_dir \<Rightarrow> shard_dir" where
  "write_file sim p f d = (if sim then d else filter (\<lambda>(q, _). q \<noteq> p) d @ [(p, f)])"

definition remove_file :: "bool \<Rightarrow> string \<Rightarrow> shard_dir \<Rightarrow> shard_dir" where
  "remove_file sim p d = (if sim then d else filter (\<lambda>(q, _). q \<noteq> p) d)"

definition rename_file :: "bool \<Rightarrow> string \<Rightarrow> string \<Rightarrow> shard_dir \<Rightarrow> shard_dir" where
  "rename_file sim p p' d =
     (if sim then d
      else case map_of d p of
             None \<Rightarrow> d
           | Some f \<Rightarrow> filter (\<lambda>(q, _). q \<noteq> p \<and> q \<noteq> p') d @ [(p', f)])"

definition merged_file :: "shard_dir \<Rightarrow> Bin \<Rightarrow> shard_file" where
  "merged_file d b =
     (let fs = List.map_filter (\<lambda>s. map_of d (Path s)) (InputShards b) in
      \<lparr>file_repos = concat (map file_repos fs),
       file_data = concat (map file_data fs),
       file_generation = Suc (foldr max (map file_generation fs) 0)\<rparr>)"

definition Execute_bin :: "bool \<Rightarrow> Bin \<Rightarrow> shard_dir \<Rightarrow> shard_dir" where
  "Execute_bin sim b d =
     (if length (InputShards b) > 1 then
        let tmp = TargetPath b @ ''.tmp'';
            d1 = write_file sim tmp (merged_file d b) d;
            d2 = rename_file sim tmp (TargetPath b) d1
        in foldl (\<lambda>d' s. remove_file sim (Path s) d') d2 (InputShards b)
      else d)"

text \<open>The report: for each bin that is merged, its target, its inputs and their size.\<close>

type_synonym merge_report = "(string \<times> string list \<times> int) list"

definition report_of :: "MergePlan \<Rightarrow> merge_report" where
  "report_of plan =
     map (\<lambda>b. (TargetPath b, map Path (InputShards b), bin_size (InputShards b)))
       (filter (\<lambda>b. length (InputShards b) > 1) (Bins plan))"

definition Execute :: "MergePlan \<Rightarrow> shard_dir \<Rightarrow> merge_report \<times> shard_dir" where
  "Execute plan d =
     (report_of plan, foldl (\<lambda>d' b. Execute_bin (Simulate plan) b d') d (Bins plan))"

definition doMerge_spec ::
  "(ShardMeta list \<Rightarrow> string) \<Rightarrow> string \<Rightarrow> int64 \<Rightarrow> bool \<Rightarrow> shard_store \<Rightarrow> merge_report \<times> shard_store" where
  "doMerge_spec naming dir targetSizeBytes simulate' store =
     (let plan = Plan naming (scan (store dir)) (sint targetSizeBytes) simulate';
          (report, d') = Execute plan (store dir)
      in (report, store(dir := d')))"

subsection \<open>The indexing queue and its listing\<close>

text \<open>
  Modelled from the spec: the listing that \<^verbatim>\<open>debugQueue\<close> fetches is rendered by the
  server behind \<^verbatim>\<open>/debug/queue\<close>, in another file of the package. What follows is the
  queue of sections 3 and 4.1 of the specification (\<open>Enqueue\<close> is an upsert that sets
  \<open>EnqueuedAt\<close> on first insertion only, \<open>List\<close> orders by priority, highest first, then
  by \<open>EnqueuedAt\<close>, oldest first) and the listing of section 6. The specification does
  not say where a repository without a queue entry is listed: here such repositories
  follow the queue entries, in catalog order.
\<close>

type_synonym branches = "(string \<times> string) list"

record Repository =
  repo_ID :: uint32
  repo_Name :: string
  repo_Priority :: int
  repo_DesiredBranches :: branches
  repo_IndexedBranches :: branches

record QueueEntry =
  RepositoryID :: uint32
  Priority :: int
  EnqueuedAt :: int
  DesiredBranches :: branches

type_synonym IndexingQueue = "QueueEntry list"

definition Enqueue :: "int \<Rightarrow> uint32 \<Rightarrow> int \<Rightarrow> branches \<Rightarrow> IndexingQueue \<Rightarrow> IndexingQueue" where
  "Enqueue now rid prio bs q =
     (if rid \<in> set (map RepositoryID q)
      then map (\<lambda>e. if RepositoryID e = rid
                     then e\<lparr>Priority := prio, DesiredBranches := bs\<rparr> else e) q
      else q @ [\<lparr>RepositoryID = rid, Priority = prio, EnqueuedAt = now, DesiredBranches = bs\<rparr>])"

definition drains_before :: "QueueEntry \<Rightarrow> QueueEntry \<Rightarrow> bool" where
  "drains_before a b =
     (Priority a > Priority b \<or> (Priority a = Priority b \<and> EnqueuedAt a \<le> EnqueuedAt b))"

fun insert_entry :: "QueueEntry \<Rightarrow> QueueEntry list \<Rightarrow> QueueEntry list" where
  "insert_entry e [] = [e]"
| "insert_entry e (x # xs) =
     (if drains_before x e then x # insert_entry e xs else e # x # xs)"

definition List_entries :: "IndexingQueue \<Rightarrow> QueueEntry list" where
  "List_entries q = foldr insert_entry q []"

record Row =
  Position :: nat
  row_Name :: string
  row_ID :: uint32
  IsOnQueue :: bool
  Age :: string
  Branches :: string

fun render_branches :: "branches \<Rightarrow> string" where
  "render_branches [] = []"
| "render_branches [(n, c)] = n @ ''@'' @ c"
| "render_branches ((n, c) # b # bs) = n @ ''@'' @ c @ '','' @ render_branches (b # bs)"

definition render_age :: "int \<Rightarrow> string" where
  "render_age d = show_nat (nat d) @ ''s''"

definition name_of :: "Repository list \<Rightarrow> uint32 \<Rightarrow> string" where
  "name_of repos rid = (case find (\<lambda>r. repo_ID r = rid) repos of None \<Rightarrow> [] | Some r \<Rightarrow> repo_Name r)"

definition off_queue :: "IndexingQueue \<Rightarrow> Repository list \<Rightarrow> Repository list" where
  "off_queue q repos = filter (\<lambda>r. repo_ID r \<notin> set (map RepositoryID q)) repos"

definition queue_rows :: "int \<Rightarrow> IndexingQueue \<Rightarrow> Repository list \<Rightarrow> (nat \<Rightarrow> Row) list" where
  "queue_rows now q repos =
     map (\<lambda>e i. \<lparr>Position = i, row_Name = name_of repos (RepositoryID e),
                  row_ID = RepositoryID e, IsOnQueue = True,
                  Age = render_age (now - EnqueuedAt e),
                  Branches = render_branches (DesiredBranches e)\<rparr>) (List_entries q) @
     map (\<lambda>r i. \<lparr>Position = i, row_Name = repo_Name r, row_ID = repo_ID r, IsOnQueue = False,
                  Age = ''-'', Branches = render_branches (repo_IndexedBranches r)\<rparr>)
       (off_queue q repos)"

definition queue_listing :: "int \<Rightarrow> IndexingQueue \<Rightarrow> Repository list \<Rightarrow> Row list" where
  "queue_listing now q repos =
     map (\<lambda>(i, f). f i) (enumerate 0 (queue_rows now q repos))"

subsection \<open>What a run does to the server's queue\<close>

text \<open>
  Modelled from the spec: the queue lives in the index server that \<^verbatim>\<open>debugQueue\<close>
  connects to, and the handlers of that server are in other files of the package. By
  sections 2 and 4.1 of the specification the debug interface is read-only: a
  \<^verbatim>\<open>GET\<close> is answered from \<open>List\<close>, which must not mutate queue state. What a request
  with another method does to the queue is not specified: it is the parameter
  \<open>other\<close>. Of the calls in a trace only \<^verbatim>\<open>http.DefaultClient.Do\<close> reaches that server;
  a redirect that the client follows repeats the method of a \<^verbatim>\<open>GET\<close>.
\<close>

definition server_after ::
  "(request \<Rightarrow> IndexingQueue \<Rightarrow> IndexingQueue) \<Rightarrow> event \<Rightarrow> IndexingQueue \<Rightarrow> IndexingQueue" where
  "server_after other e q =
     (case e of
        HttpDo r \<Rightarrow> (if Method r = ''GET'' then q else other r q)
      | _ \<Rightarrow> q)"

definition queue_after ::
  "(request \<Rightarrow> IndexingQueue \<Rightarrow> IndexingQueue) \<Rightarrow> event list \<Rightarrow> IndexingQueue \<Rightarrow> IndexingQueue" where
  "queue_after other es q = foldl (\<lambda>q' e. server_after other e q') q es"

section \<open>Sample inputs\<close>

subsection \<open>A sample environment\<close>

text \<open>
  One possible behaviour of the collaborators, used to run the commands on concrete
  inputs: the server is constructed, forced indexing fails with a message, the merge and
  the printers succeed, \<^verbatim>\<open>url.Parse\<close> rejects a host name with a space in it (as Go's
  does) and accepts the other addresses unchanged, the HTTP request is answered and
  stdout takes the whole body. No environment variable is set.
\<close>

definition sample_env :: env where
  "sample_env =
     \<lparr>newServer = (\<lambda>conf. Inr \<lparr>IndexDir = ''/data/index''\<rparr>),
      forceIndex = (\<lambda>s i. (''index failed'', Some (External ''exit status 1''))),
      printShardStats = (\<lambda>path. None),
      printMetaData = (\<lambda>path. None),
      doMerge = (\<lambda>dir size sim. None),
      listIndexed = (\<lambda>dir. []),
      sourcegraphList = (\<lambda>s indexed. Inr indexed),
      urlParse = (\<lambda>raw. if CHR '' '' \<in> set raw
                        then Inl (External ''invalid character in host name'')
                        else Inr raw),
      newRequestError = (\<lambda>method url. None),
      httpDo = (\<lambda>r. Inr ''0 repo 1 true 5s HEAD@abc''),
      copyFault = (\<lambda>body. None),
      getEnvWithDefaultInt64 = (\<lambda>k d. d),
      getEnvWithDefaultString = (\<lambda>k d. d),
      srcLogLevelIsDebug = False,
      DefaultDir = ''/home/zoekt/.zoekt'',
      registerRootFlags = []\<rparr>"

definition sample_world :: world where
  "sample_world = \<lparr>trace = [], debug = False\<rparr>"

text \<open>The flag variables when no flag is given on the command line, under \<open>sample_env\<close>.\<close>

text \<open>
  A shard directory of four shards of 10, 15, 30 and 5 bytes, a naming of compound
  shards, a catalog of four repositories, and a queue: repositories 1, 2 and 3 are
  enqueued at times 0, 1 and 2 with priorities 5, 5 and 9, and at time 7 the entry of
  repository 1 gets new branches.
\<close>

definition sample_store :: shard_store where
  "sample_store =
     (\<lambda>dir. if dir = ''/data/index'' then
        [(''a.zoekt'', \<lparr>file_repos = [1], file_data = ''aaaaaaaaaa'', file_generation = 0\<rparr>),
         (''b.zoekt'', \<lparr>file_repos = [2], file_data = ''bbbbbbbbbbbbbbb'', file_generation = 0\<rparr>),
         (''c.zoekt'', \<lparr>file_repos = [3], file_data = ''cccccccccccccccccccccccccccccc'',
            file_generation = 0\<rparr>),
         (''d.zoekt'', \<lparr>file_repos = [4], file_data = ''ddddd'', file_generation = 0\<rparr>)]
      else [])"

definition sample_naming :: "ShardMeta list \<Rightarrow> string" where
  "sample_naming b = ''compound-'' @ Path (hd b)"

definition sample_repos :: "Repository list" where
  "sample_repos =
     [\<lparr>repo_ID = 1, repo_Name = ''A'', repo_Priority = 5,
       repo_DesiredBranches = [(''main'', ''c2'')], repo_IndexedBranches = []\<rparr>,
      \<lparr>repo_ID = 2, repo_Name = ''B'', repo_Priority = 5,
       repo_DesiredBranches = [(''main'', ''b1'')], repo_IndexedBranches = []\<rparr>,
      \<lparr>repo_ID = 3, repo_Name = ''C'', repo_Priority = 9,
       repo_DesiredBranches = [(''main'', ''d1''), (''dev'', ''d2'')], repo_IndexedBranches = []\<rparr>,
      \<lparr>repo_ID = 4, repo_Name = ''D'', repo_Priority = 1,
       repo_DesiredBranches = [(''main'', ''e1'')], repo_IndexedBranches = [(''main'', ''e1'')]\<rparr>]"

definition sample_queue :: IndexingQueue where
  "sample_queue =
     Enqueue 7 1 5 [(''main'', ''c2'')]
       (Enqueue 2 3 9 [(''main'', ''d1''), (''dev'', ''d2'')]
         (Enqueue 1 2 5 [(''main'', ''b1'')]
           (Enqueue 0 1 5 [(''main'', ''c1'')] [])))"

definition sample_vars :: flag_vars where
  "sample_vars =
     \<lparr>index_conf = [], list_conf = [], excludeIndexed = False, listIndexed_conf = [],
      simulate = False, targetSize = 2000, index = ''/home/zoekt/.zoekt'', dbg = False,
      hostname = ''localhost'', port = 6072\<rparr>"

section \<open>Properties of the commands\<close>

subsection \<open>The trace of a run\<close>

lemma trace_call: "trace (call e w) = trace w @ [e]"
  by (simp add: call_def)

lemma debug_call: "debug (call e w) = debug w"
  by (simp add: call_def)

lemma new_calls_append: "trace w' = trace w @ es \<Longrightarrow> new_calls w w' = es"
  by (simp add: new_calls_def)

lemma debugIndex_Exec_trace:
  "trace (snd (debugIndex_Exec env conf args w)) = trace w @
     (if args = [] then []
      else case newServer env conf of
        Inl err \<Rightarrow> [NewServer conf]
      | Inr s \<Rightarrow>
         (case Atoi (hd args) of
            Inl err \<Rightarrow> [NewServer conf]
          | Inr n \<Rightarrow> [NewServer conf, ForceIndex s (to_uint32 n),
                       LogPrintln (fst (forceIndex env s (to_uint32 n)))]))"
  by (simp add: debugIndex_Exec_def trace_call Let_def split: sum.splits prod.splits option.splits)

lemma debugIndex_Exec_calls:
  "new_calls w (snd (debugIndex_Exec env conf args w)) =
     (if args = [] then []
      else case newServer env conf of
        Inl err \<Rightarrow> [NewServer conf]
      | Inr s \<Rightarrow>
         (case Atoi (hd args) of
            Inl err \<Rightarrow> [NewServer conf]
          | Inr n \<Rightarrow> [NewServer conf, ForceIndex s (to_uint32 n),
                       LogPrintln (fst (forceIndex env s (to_uint32 n)))]))"
  by (rule new_calls_append) (rule debugIndex_Exec_trace)

lemma debugIndex_Exec_error:
  "fst (debugIndex_Exec env conf args w) =
     (if args = [] then Some (Errorf ''missing repository ID'')
      else case newServer env conf of
        Inl err \<Rightarrow> Some err
      | Inr s \<Rightarrow>
         (case Atoi (hd args) of
            Inl err \<Rightarrow> Some err
          | Inr n \<Rightarrow> snd (forceIndex env s (to_uint32 n))))"
  by (simp add: debugIndex_Exec_def Let_def split: sum.splits prod.splits option.splits)

lemma debugMerge_Exec_calls:
  "new_calls w (snd (debugMerge_Exec env sim t idx d args w)) =
     [DoMerge idx (t * 1024 * 1024) sim]"
  by (rule new_calls_append) (simp add: debugMerge_Exec_def Let_def trace_call)

lemma debugMerge_Exec_error:
  "fst (debugMerge_Exec env sim t idx d args w) = doMerge env idx (t * 1024 * 1024) sim"
  by (simp add: debugMerge_Exec_def Let_def)

subsection \<open>Parsing and converting the repository ID\<close>

lemmas Atoi_eval = Atoi_def ParseInt_def ParseUint_def is_digit_def digit_val_def maxUint64_def

lemma Atoi_minus_one: "Atoi ''-1'' = Inr (- 1)"
  by (simp add: Atoi_eval)

lemma Atoi_7: "Atoi ''7'' = Inr 7"
  by (simp add: Atoi_eval)


lemma to_uint32_mod: "uint (to_uint32 n) = n mod 2 ^ 32"
  by (simp add: to_uint32_def uint_word_of_int)

subsection \<open>Missing positional argument\<close>

text \<open>
  Claim C4. With an empty list of positional arguments the index, trigrams and meta
  commands return their error (\<^verbatim>\<open>missing repository ID\<close>, \<^verbatim>\<open>missing path to shard\<close>)
  at once and leave the world as it was: the trace gains no call, so no server is
  constructed, no indexing is forced and no shard is read.
\<close>

theorem missing_argument_rejected:
  "debugIndex_Exec env conf [] w = (Some (Errorf ''missing repository ID''), w) \<and>
   debugTrigrams_Exec env [] w = (Some (Errorf ''missing path to shard''), w) \<and>
   debugMeta_Exec env [] w = (Some (Errorf ''missing path to shard''), w)"
  by (simp add: debugIndex_Exec_def debugTrigrams_Exec_def debugMeta_Exec_def)

subsection \<open>The repository ID of the index command\<close>




text \<open>
  Claim C9, as stated, fails: when \<^verbatim>\<open>newServer\<close> returns an error the command returns
  it before it looks at its argument, and \<^verbatim>\<open>forceIndex\<close> is not called, whatever the
  argument is.
\<close>

theorem negative_id_counterexample:
  "Atoi ''-1'' = Inr (- 1) \<and>
   fst (debugIndex_Exec (sample_env\<lparr>newServer := \<lambda>conf. Inl (External ''no index dir'')\<rparr>)
          [] [''-1''] sample_world) = Some (External ''no index dir'') \<and>
   new_calls sample_world
     (snd (debugIndex_Exec (sample_env\<lparr>newServer := \<lambda>conf. Inl (External ''no index dir'')\<rparr>)
          [] [''-1''] sample_world)) = [NewServer []]"
  by (simp add: debugIndex_Exec_calls debugIndex_Exec_error Atoi_minus_one sample_env_def)

text \<open>
  Claim C9, amended. When the server is constructed and the first argument parses as a
  negative integer \<open>n\<close>, the index command does not reject it: \<^verbatim>\<open>forceIndex\<close> is called
  with the repository ID \<open>n mod 2 ^ 32\<close> (4294967295 for \<^verbatim>\<open>-1\<close>), its message is
  logged, and the error of the command is the one of \<^verbatim>\<open>forceIndex\<close>.
\<close>

theorem negative_id_wraps:
  assumes "args \<noteq> []" and "newServer env conf = Inr s"
    and "Atoi (hd args) = Inr n" and "n < 0"
  shows "new_calls w (snd (debugIndex_Exec env conf args w)) =
           [NewServer conf, ForceIndex s (to_uint32 n),
            LogPrintln (fst (forceIndex env s (to_uint32 n)))] \<and>
         uint (to_uint32 n) = n mod 2 ^ 32 \<and>
         fst (debugIndex_Exec env conf args w) = snd (forceIndex env s (to_uint32 n))"
  using assms
  by (simp add: debugIndex_Exec_calls debugIndex_Exec_error to_uint32_mod)

theorem negative_id_wraps_witness:
  "new_calls sample_world (snd (debugIndex_Exec sample_env [] [''-1''] sample_world)) =
     [NewServer [], ForceIndex \<lparr>IndexDir = ''/data/index''\<rparr> 4294967295,
      LogPrintln ''index failed''] \<and>
   uint (to_uint32 (- 1)) = 4294967295"
  using negative_id_wraps [of "[''-1'']" sample_env "[]" "\<lparr>IndexDir = ''/data/index''\<rparr>" "- 1"
      sample_world]
  by (simp add: Atoi_minus_one sample_env_def to_uint32_def)

text \<open>
  Claim C10. In every run of the index command that calls \<^verbatim>\<open>forceIndex\<close>, the message
  that \<^verbatim>\<open>forceIndex\<close> returns is logged right after the call, whether or not an error
  came with it, and the error of the command is the error of \<^verbatim>\<open>forceIndex\<close>.
\<close>

theorem forceIndex_message_logged:
  assumes "ForceIndex s i \<in> set (new_calls w (snd (debugIndex_Exec env conf args w)))"
  shows "new_calls w (snd (debugIndex_Exec env conf args w)) =
           [NewServer conf, ForceIndex s i, LogPrintln (fst (forceIndex env s i))] \<and>
         fst (debugIndex_Exec env conf args w) = snd (forceIndex env s i)"
  using assms
  by (auto simp: debugIndex_Exec_calls debugIndex_Exec_error split: if_splits sum.splits)

theorem forceIndex_message_logged_witness:
  "new_calls sample_world (snd (debugIndex_Exec sample_env [] [''7''] sample_world)) =
     [NewServer [], ForceIndex \<lparr>IndexDir = ''/data/index''\<rparr> 7, LogPrintln ''index failed''] \<and>
   fst (debugIndex_Exec sample_env [] [''7''] sample_world) = Some (External ''exit status 1'')"
proof -
  have called: "ForceIndex \<lparr>IndexDir = ''/data/index''\<rparr> 7
      \<in> set (new_calls sample_world (snd (debugIndex_Exec sample_env [] [''7''] sample_world)))"
    by (simp add: debugIndex_Exec_calls sample_env_def to_uint32_def Atoi_7)
  show ?thesis
    using forceIndex_message_logged [OF called] by (simp add: sample_env_def)
qed

subsection \<open>The merge command\<close>

text \<open>
  Claim C1 fails on the code. The usage line of the merge command is
  \<^verbatim>\<open>merge [flags] <dir>\<close> and its help says that the merge runs inside \<^verbatim>\<open>dir\<close>, but
  \<open>Exec\<close> never reads its arguments: run as \<^verbatim>\<open>merge /tmp/shards\<close> with no flag and no
  environment variable set, it hands \<^verbatim>\<open>doMerge\<close> the default of the \<^verbatim>\<open>index\<close> flag.
\<close>

theorem merge_ignores_positional_dir:
  "ShortUsage (debugMerge sample_env) = ''merge [flags] <dir>'' \<and>
   Exec (debugMerge sample_env) =
     Some (\<lambda>vars args. debugMerge_Exec sample_env (simulate vars) (targetSize vars) (index vars)
            (dbg vars) args) \<and>
   new_calls sample_world
     (snd (debugMerge_Exec sample_env (simulate sample_vars) (targetSize sample_vars)
        (index sample_vars) (dbg sample_vars) [''/tmp/shards''] sample_world)) =
     [DoMerge ''/home/zoekt/.zoekt'' 2097152000 False]"
  by (simp add: debugMerge_Exec_calls debugMerge_def sample_vars_def)

lemma sint_MiB:
  assumes "- (2 ^ 43) \<le> sint (t :: int64)" and "sint t < 2 ^ 43"
  shows "sint (t * 1024 * 1024) = sint t * (1024 * 1024)"
proof -
  have "sint (t * 1048576) = signed_take_bit 63 (sint t * sint (1048576 :: int64))"
    by (simp add: sint_word_ariths)
  also have "sint (1048576 :: int64) = 1048576" by simp
  also have "signed_take_bit 63 (sint t * 1048576) = sint t * 1048576"
    using assms by (intro signed_take_bit_int_eq_self) auto
  finally show ?thesis by (simp add: mult.commute)
qed

lemma merge_flag_declared:
  "Int64Flag ''merge_target_size'' (getEnvWithDefaultInt64 env ''SRC_TARGET_SIZE'' 2000)
     ''the target size of compound shards in MiB''
   \<in> set (fs_flags (parse_FlagSet (debugMerge env)))"
  by (simp add: debugMerge_def parse_FlagSet_def NewFlagSet_def)

text \<open>
  Claim C3, as stated, fails: the product is taken in \<^verbatim>\<open>int64\<close>. A flag value of
  \<open>2 ^ 43\<close> MiB gives \<^verbatim>\<open>doMerge\<close> the target size \<open>- (2 ^ 63)\<close>, not \<open>2 ^ 63\<close>.
\<close>

theorem target_size_overflow_counterexample:
  "new_calls sample_world
     (snd (debugMerge_Exec sample_env False 8796093022208 ''/data/index'' False [] sample_world)) =
     [DoMerge ''/data/index'' 9223372036854775808 False] \<and>
   sint (9223372036854775808 :: int64) = - 9223372036854775808 \<and>
   sint (8796093022208 :: int64) * (1024 * 1024) = 9223372036854775808"
  by (simp add: debugMerge_Exec_calls)

text \<open>
  Claim C3, amended. The target size handed to \<^verbatim>\<open>doMerge\<close> is the value of the
  \<^verbatim>\<open>merge_target_size\<close> flag (in MiB; its default is
  \<^verbatim>\<open>getEnvWithDefaultInt64("SRC_TARGET_SIZE", 2000)\<close>) times \<open>1024 * 1024\<close> in \<^verbatim>\<open>int64\<close>
  arithmetic; for a flag value from \<open>- (2 ^ 43)\<close> up to, not including, \<open>2 ^ 43\<close> this
  is the exact product, a number of bytes.
\<close>

theorem target_size_in_bytes:
  assumes "- (2 ^ 43) \<le> sint t" and "sint t < 2 ^ 43"
  shows "new_calls w (snd (debugMerge_Exec env sim t idx d args w)) =
           [DoMerge idx (t * 1024 * 1024) sim] \<and>
         sint (t * 1024 * 1024) = sint t * (1024 * 1024) \<and>
         Int64Flag ''merge_target_size'' (getEnvWithDefaultInt64 env ''SRC_TARGET_SIZE'' 2000)
           ''the target size of compound shards in MiB''
         \<in> set (fs_flags (parse_FlagSet (debugMerge env)))"
  using assms by (simp only: debugMerge_Exec_calls sint_MiB merge_flag_declared simp_thms)

theorem target_size_in_bytes_witness:
  "new_calls sample_world
     (snd (debugMerge_Exec sample_env False 2000 ''/data/index'' False [] sample_world)) =
     [DoMerge ''/data/index'' 2097152000 False] \<and>
   sint (2097152000 :: int64) = 2000 * (1024 * 1024)"
  using target_size_in_bytes [of 2000 sample_world sample_env False "''/data/index''" False "[]"]
  by simp

subsection \<open>The command table\<close>

lemmas debug_subcommands_defs =
  debugCmd_def debugIndex_def debugList_def debugListIndexed_def debugMerge_def
  debugMeta_def debugTrigrams_def debugQueue_def

lemma subcommand_names:
  "map Name (Subcommands (debugCmd env)) =
     [''index'', ''list'', ''list-indexed'', ''merge'', ''meta'', ''trigrams'', ''queue'']"
  by (simp add: debug_subcommands_defs)

lemma lookup_subcommand_None:
  "(lookup_subcommand c name = None) = (name \<notin> set (map Name (Subcommands c)))"
  by (auto simp: lookup_subcommand_def find_None_iff)

text \<open>
  Claim C7. The subcommands of the debug command form a fixed table. Whatever the
  environment, their names are index, list, list-indexed, merge, meta, trigrams and
  queue; each name selects the command that its constructor builds and no other name
  selects anything; every one of them has a handler and no subcommands of its own; and
  the flag sets they parse with are seven different ones (those of meta and trigrams,
  which declare no flag, are the empty sets that ffcli names after the command).
\<close>

theorem debug_dispatch_static:
  "map Name (Subcommands (debugCmd env)) =
     [''index'', ''list'', ''list-indexed'', ''merge'', ''meta'', ''trigrams'', ''queue''] \<and>
   map Name (Subcommands (debugCmd env)) = map Name (Subcommands (debugCmd env')) \<and>
   lookup_subcommand (debugCmd env) ''index'' = Some (debugIndex env) \<and>
   lookup_subcommand (debugCmd env) ''list'' = Some (debugList env) \<and>
   lookup_subcommand (debugCmd env) ''list-indexed'' = Some (debugListIndexed env) \<and>
   lookup_subcommand (debugCmd env) ''merge'' = Some (debugMerge env) \<and>
   lookup_subcommand (debugCmd env) ''meta'' = Some (debugMeta env) \<and>
   lookup_subcommand (debugCmd env) ''trigrams'' = Some (debugTrigrams env) \<and>
   lookup_subcommand (debugCmd env) ''queue'' = Some (debugQueue env) \<and>
   (lookup_subcommand (debugCmd env) name = None) =
     (name \<notin> set [''index'', ''list'', ''list-indexed'', ''merge'', ''meta'', ''trigrams'', ''queue'']) \<and>
   map (\<lambda>c. fs_name (parse_FlagSet c)) (Subcommands (debugCmd env)) =
     [''debug index'', ''debug list'', ''debug list-indexed'', ''debug merge'', ''meta'',
      ''trigrams'', ''debug queue''] \<and>
   list_all (\<lambda>c. Exec c \<noteq> None \<and> Subcommands c = []) (Subcommands (debugCmd env))"
proof (intro conjI)
  show "(lookup_subcommand (debugCmd env) name = None) =
     (name \<notin> set [''index'', ''list'', ''list-indexed'', ''merge'', ''meta'', ''trigrams'', ''queue''])"
    by (simp only: lookup_subcommand_None subcommand_names)
  show "map (\<lambda>c. fs_name (parse_FlagSet c)) (Subcommands (debugCmd env)) =
     [''debug index'', ''debug list'', ''debug list-indexed'', ''debug merge'', ''meta'',
      ''trigrams'', ''debug queue'']"
    by (simp add: debug_subcommands_defs parse_FlagSet_def NewFlagSet_def)
qed (simp_all add: lookup_subcommand_def debug_subcommands_defs)

subsection \<open>The queue command\<close>

lemma debugQueue_Exec_unfold:
  "debugQueue_Exec env h p args w =
     (case urlParse env (Sprintf_url h p) of
        Inl err \<Rightarrow> (Some (ParsingURL (Sprintf_url h p) err), w)
      | Inr address \<Rightarrow>
          (case newRequestError env ''GET'' address of
             Some err \<Rightarrow> (Some (ConstructingRequest err), w)
           | None \<Rightarrow>
               (case httpDo env \<lparr>Method = ''GET'', URL = address, Header = [(''Accept'', ''text/plain'')]\<rparr> of
                  Inl err \<Rightarrow>
                    (Some err,
                     call (HttpDo \<lparr>Method = ''GET'', URL = address, Header = [(''Accept'', ''text/plain'')]\<rparr>) w)
                | Inr body \<Rightarrow>
                    (map_option WritingToStdout (snd (ioCopy env body)),
                     call BodyClose (call (StdoutWrite (fst (ioCopy env body)))
                       (call (HttpDo \<lparr>Method = ''GET'', URL = address,
                          Header = [(''Accept'', ''text/plain'')]\<rparr>) w))))))"
proof (cases "urlParse env (Sprintf_url h p)")
  case (Inl err)
  then show ?thesis by (simp add: debugQueue_Exec_def)
next
  case parsed: (Inr address)
  show ?thesis
  proof (cases "newRequestError env ''GET'' address")
    case (Some err)
    with parsed show ?thesis
      by (simp add: debugQueue_Exec_def NewRequestWithContext_def)
  next
    case None
    show ?thesis
    proof (cases "httpDo env \<lparr>Method = ''GET'', URL = address, Header = [(''Accept'', ''text/plain'')]\<rparr>")
      case (Inl err)
      with parsed None show ?thesis
        by (simp add: debugQueue_Exec_def NewRequestWithContext_def Header_Set_def)
    next
      case (Inr body)
      with parsed None show ?thesis
        by (cases "ioCopy env body"; cases "snd (ioCopy env body)")
          (simp_all add: debugQueue_Exec_def NewRequestWithContext_def Header_Set_def)
    qed
  qed
qed

lemma debugQueue_Exec_calls:
  "new_calls w (snd (debugQueue_Exec env h p args w)) =
     (case urlParse env (Sprintf_url h p) of
        Inl err \<Rightarrow> []
      | Inr address \<Rightarrow>
          (case newRequestError env ''GET'' address of
             Some err \<Rightarrow> []
           | None \<Rightarrow>
               (case httpDo env \<lparr>Method = ''GET'', URL = address, Header = [(''Accept'', ''text/plain'')]\<rparr> of
                  Inl err \<Rightarrow> [HttpDo \<lparr>Method = ''GET'', URL = address, Header = [(''Accept'', ''text/plain'')]\<rparr>]
                | Inr body \<Rightarrow>
                    [HttpDo \<lparr>Method = ''GET'', URL = address, Header = [(''Accept'', ''text/plain'')]\<rparr>,
                     StdoutWrite (fst (ioCopy env body)), BodyClose])))"
  by (rule new_calls_append)
    (simp add: debugQueue_Exec_unfold trace_call split: sum.split option.split)

lemma debugQueue_Exec_error:
  "fst (debugQueue_Exec env h p args w) =
     (case urlParse env (Sprintf_url h p) of
        Inl err \<Rightarrow> Some (ParsingURL (Sprintf_url h p) err)
      | Inr address \<Rightarrow>
          (case newRequestError env ''GET'' address of
             Some err \<Rightarrow> Some (ConstructingRequest err)
           | None \<Rightarrow>
               (case httpDo env \<lparr>Method = ''GET'', URL = address, Header = [(''Accept'', ''text/plain'')]\<rparr> of
                  Inl err \<Rightarrow> Some err
                | Inr body \<Rightarrow> map_option WritingToStdout (snd (ioCopy env body)))))"
  by (simp add: debugQueue_Exec_unfold split: sum.split option.split)

lemma debugQueue_Exec_debug: "debug (snd (debugQueue_Exec env h p args w)) = debug w"
  by (simp add: debugQueue_Exec_unfold debug_call split: sum.split option.split)

lemma Sprintf_url_localhost: "Sprintf_url ''localhost'' 6072 = ''http://localhost:6072/debug/queue''"
  by (simp add: Sprintf_url_def show_nat.simps)

lemma Sprintf_url_space: "Sprintf_url ''a b'' 6072 = ''http://a b:6072/debug/queue''"
  by (simp add: Sprintf_url_def show_nat.simps)

text \<open>
  Claim C8, as stated, fails: with the host name \<^verbatim>\<open>a b\<close> the address does not parse,
  and the command returns the error without calling \<^verbatim>\<open>Do\<close>: no request is sent and
  nothing is written to stdout.
\<close>

theorem queue_no_request_counterexample:
  "fst (debugQueue_Exec sample_env ''a b'' 6072 [] sample_world) =
     Some (ParsingURL ''http://a b:6072/debug/queue'' (External ''invalid character in host name'')) \<and>
   new_calls sample_world (snd (debugQueue_Exec sample_env ''a b'' 6072 [] sample_world)) = []"
  by (simp add: debugQueue_Exec_calls debugQueue_Exec_error Sprintf_url_space sample_env_def)

lemma queue_after_Nil: "queue_after other [] q = q"
  by (simp add: queue_after_def)

lemma queue_after_Cons: "queue_after other (e # es) q = queue_after other es (server_after other e q)"
  by (simp add: queue_after_def)

lemma debugQueue_Exec_queue:
  "queue_after other (new_calls w (snd (debugQueue_Exec env h p args w))) q = q"
  by (simp add: debugQueue_Exec_calls queue_after_Nil queue_after_Cons server_after_def
      split: sum.split option.split)

lemma ioCopy_ok: "copyFault env body = None \<Longrightarrow> ioCopy env body = (body, None)"
  by (simp add: ioCopy_def)

lemma ioCopy_fault: "copyFault env body = Some (n, e) \<Longrightarrow> ioCopy env body = (take n body, Some e)"
  by (simp add: ioCopy_def)

text \<open>
  Claim C8, amended. The queue command is read-only introspection. It calls
  \<^verbatim>\<open>http.DefaultClient.Do\<close> at most once, always with a \<^verbatim>\<open>GET\<close> request that carries the
  header \<^verbatim>\<open>Accept: text/plain\<close> and goes to the address that
  \<^verbatim>\<open>http://<hostname>:<port>/debug/queue\<close> parses to; besides that it only writes to
  stdout and closes the response body; it leaves the package's \<^verbatim>\<open>debug\<close> logger alone
  and never mutates queue state. Case by case: when the address does not parse or the
  request cannot be built, the error is returned and nothing is called; when \<^verbatim>\<open>Do\<close>
  fails, its error is returned and nothing is written; when \<^verbatim>\<open>Do\<close> succeeds, the response
  body is copied to stdout unchanged and no error is returned, or, when the copy stops
  early, the part of the body copied so far is on stdout and the copy's error is returned;
  in both cases the body is closed.
\<close>

theorem debugQueue_read_only:
  "length (filter is_Do_call (new_calls w (snd (debugQueue_Exec env h p args w)))) \<le> 1 \<and>
   list_all
     (\<lambda>e. case e of
             HttpDo r \<Rightarrow> Method r = ''GET'' \<and> urlParse env (Sprintf_url h p) = Inr (URL r) \<and>
                        Header r = [(''Accept'', ''text/plain'')]
           | StdoutWrite t \<Rightarrow> True
           | BodyClose \<Rightarrow> True
           | _ \<Rightarrow> False)
     (new_calls w (snd (debugQueue_Exec env h p args w))) \<and>
   debug (snd (debugQueue_Exec env h p args w)) = debug w \<and>
   queue_after other (new_calls w (snd (debugQueue_Exec env h p args w))) q = q \<and>
   (\<forall>err.
      urlParse env (Sprintf_url h p) = Inl err \<longrightarrow>
      new_calls w (snd (debugQueue_Exec env h p args w)) = [] \<and>
      fst (debugQueue_Exec env h p args w) = Some (ParsingURL (Sprintf_url h p) err)) \<and>
   (\<forall>address err.
      urlParse env (Sprintf_url h p) = Inr address \<and>
      newRequestError env ''GET'' address = Some err \<longrightarrow>
      new_calls w (snd (debugQueue_Exec env h p args w)) = [] \<and>
      fst (debugQueue_Exec env h p args w) = Some (ConstructingRequest err)) \<and>
   (\<forall>address err.
      urlParse env (Sprintf_url h p) = Inr address \<and>
      newRequestError env ''GET'' address = None \<and>
      httpDo env \<lparr>Method = ''GET'', URL = address, Header = [(''Accept'', ''text/plain'')]\<rparr> = Inl err \<longrightarrow>
      new_calls w (snd (debugQueue_Exec env h p args w)) =
        [HttpDo \<lparr>Method = ''GET'', URL = address, Header = [(''Accept'', ''text/plain'')]\<rparr>] \<and>
      fst (debugQueue_Exec env h p args w) = Some err) \<and>
   (\<forall>address body.
      urlParse env (Sprintf_url h p) = Inr address \<and>
      newRequestError env ''GET'' address = None \<and>
      httpDo env \<lparr>Method = ''GET'', URL = address, Header = [(''Accept'', ''text/plain'')]\<rparr> = Inr body \<and>
      copyFault env body = None \<longrightarrow>
      new_calls w (snd (debugQueue_Exec env h p args w)) =
        [HttpDo \<lparr>Method = ''GET'', URL = address, Header = [(''Accept'', ''text/plain'')]\<rparr>,
         StdoutWrite body, BodyClose] \<and>
      fst (debugQueue_Exec env h p args w) = None) \<and>
   (\<forall>address body n err.
      urlParse env (Sprintf_url h p) = Inr address \<and>
      newRequestError env ''GET'' address = None \<and>
      httpDo env \<lparr>Method = ''GET'', URL = address, Header = [(''Accept'', ''text/plain'')]\<rparr> = Inr body \<and>
      copyFault env body = Some (n, err) \<longrightarrow>
      new_calls w (snd (debugQueue_Exec env h p args w)) =
        [HttpDo \<lparr>Method = ''GET'', URL = address, Header = [(''Accept'', ''text/plain'')]\<rparr>,
         StdoutWrite (take n body), BodyClose] \<and>
      fst (debugQueue_Exec env h p args w) = Some (WritingToStdout err))"
proof (intro conjI allI impI)
  show "length (filter is_Do_call (new_calls w (snd (debugQueue_Exec env h p args w)))) \<le> 1"
    by (simp add: debugQueue_Exec_calls is_Do_call_def split: sum.splits option.splits)
  show "list_all
     (\<lambda>e. case e of
             HttpDo r \<Rightarrow> Method r = ''GET'' \<and> urlParse env (Sprintf_url h p) = Inr (URL r) \<and>
                        Header r = [(''Accept'', ''text/plain'')]
           | StdoutWrite t \<Rightarrow> True
           | BodyClose \<Rightarrow> True
           | _ \<Rightarrow> False)
     (new_calls w (snd (debugQueue_Exec env h p args w)))"
    by (simp add: debugQueue_Exec_calls split: sum.splits option.splits)
  show "debug (snd (debugQueue_Exec env h p args w)) = debug w"
    by (rule debugQueue_Exec_debug)
  show "queue_after other (new_calls w (snd (debugQueue_Exec env h p args w))) q = q"
    by (rule debugQueue_Exec_queue)
next
  fix err
  assume "urlParse env (Sprintf_url h p) = Inl err"
  then show "new_calls w (snd (debugQueue_Exec env h p args w)) = []"
    and "fst (debugQueue_Exec env h p args w) = Some (ParsingURL (Sprintf_url h p) err)"
    by (simp_all add: debugQueue_Exec_calls debugQueue_Exec_error)
next
  fix address err
  assume "urlParse env (Sprintf_url h p) = Inr address \<and>
      newRequestError env ''GET'' address = Some err"
  then show "new_calls w (snd (debugQueue_Exec env h p args w)) = []"
    and "fst (debugQueue_Exec env h p args w) = Some (ConstructingRequest err)"
    by (simp_all add: debugQueue_Exec_calls debugQueue_Exec_error)
next
  fix address err
  assume "urlParse env (Sprintf_url h p) = Inr address \<and>
      newRequestError env ''GET'' address = None \<and>
      httpDo env \<lparr>Method = ''GET'', URL = address, Header = [(''Accept'', ''text/plain'')]\<rparr> = Inl err"
  then show "new_calls w (snd (debugQueue_Exec env h p args w)) =
        [HttpDo \<lparr>Method = ''GET'', URL = address, Header = [(''Accept'', ''text/plain'')]\<rparr>]"
    and "fst (debugQueue_Exec env h p args w) = Some err"
    by (simp_all add: debugQueue_Exec_calls debugQueue_Exec_error)
next
  fix address body
  assume "urlParse env (Sprintf_url h p) = Inr address \<and>
      newRequestError env ''GET'' address = None \<and>
      httpDo env \<lparr>Method = ''GET'', URL = address, Header = [(''Accept'', ''text/plain'')]\<rparr> = Inr body \<and>
      copyFault env body = None"
  then show "new_calls w (snd (debugQueue_Exec env h p args w)) =
        [HttpDo \<lparr>Method = ''GET'', URL = address, Header = [(''Accept'', ''text/plain'')]\<rparr>,
         StdoutWrite body, BodyClose]"
    and "fst (debugQueue_Exec env h p args w) = None"
    by (simp_all add: debugQueue_Exec_calls debugQueue_Exec_error ioCopy_ok)
next
  fix address body n err
  assume "urlParse env (Sprintf_url h p) = Inr address \<and>
      newRequestError env ''GET'' address = None \<and>
      httpDo env \<lparr>Method = ''GET'', URL = address, Header = [(''Accept'', ''text/plain'')]\<rparr> = Inr body \<and>
      copyFault env body = Some (n, err)"
  then show "new_calls w (snd (debugQueue_Exec env h p args w)) =
        [HttpDo \<lparr>Method = ''GET'', URL = address, Header = [(''Accept'', ''text/plain'')]\<rparr>,
         StdoutWrite (take n body), BodyClose]"
    and "fst (debugQueue_Exec env h p args w) = Some (WritingToStdout err)"
    by (simp_all add: debugQueue_Exec_calls debugQueue_Exec_error ioCopy_fault)
qed

theorem debugQueue_read_only_witness:
  "new_calls sample_world (snd (debugQueue_Exec sample_env ''localhost'' 6072 [] sample_world)) =
     [HttpDo \<lparr>Method = ''GET'', URL = ''http://localhost:6072/debug/queue'',
              Header = [(''Accept'', ''text/plain'')]\<rparr>,
      StdoutWrite ''0 repo 1 true 5s HEAD@abc'', BodyClose] \<and>
   fst (debugQueue_Exec sample_env ''localhost'' 6072 [] sample_world) = None \<and>
   queue_after (\<lambda>r q'. []) 
     (new_calls sample_world (snd (debugQueue_Exec sample_env ''localhost'' 6072 [] sample_world)))
     sample_queue = sample_queue \<and>
   new_calls sample_world
     (snd (debugQueue_Exec (sample_env\<lparr>httpDo := \<lambda>r. Inl (External ''connection refused'')\<rparr>)
        ''localhost'' 6072 [] sample_world)) =
     [HttpDo \<lparr>Method = ''GET'', URL = ''http://localhost:6072/debug/queue'',
              Header = [(''Accept'', ''text/plain'')]\<rparr>] \<and>
   fst (debugQueue_Exec (sample_env\<lparr>httpDo := \<lambda>r. Inl (External ''connection refused'')\<rparr>)
        ''localhost'' 6072 [] sample_world) = Some (External ''connection refused'')"
proof -
  have ok: "urlParse sample_env (Sprintf_url ''localhost'' 6072) = Inr ''http://localhost:6072/debug/queue'' \<and>
      newRequestError sample_env ''GET'' ''http://localhost:6072/debug/queue'' = None \<and>
      httpDo sample_env \<lparr>Method = ''GET'', URL = ''http://localhost:6072/debug/queue'',
         Header = [(''Accept'', ''text/plain'')]\<rparr> = Inr ''0 repo 1 true 5s HEAD@abc'' \<and>
      copyFault sample_env ''0 repo 1 true 5s HEAD@abc'' = None"
    by (simp add: Sprintf_url_localhost sample_env_def)
  have refused: "urlParse (sample_env\<lparr>httpDo := \<lambda>r. Inl (External ''connection refused'')\<rparr>)
        (Sprintf_url ''localhost'' 6072) = Inr ''http://localhost:6072/debug/queue'' \<and>
      newRequestError (sample_env\<lparr>httpDo := \<lambda>r. Inl (External ''connection refused'')\<rparr>)
        ''GET'' ''http://localhost:6072/debug/queue'' = None \<and>
      httpDo (sample_env\<lparr>httpDo := \<lambda>r. Inl (External ''connection refused'')\<rparr>)
        \<lparr>Method = ''GET'', URL = ''http://localhost:6072/debug/queue'',
         Header = [(''Accept'', ''text/plain'')]\<rparr> = Inl (External ''connection refused'')"
    by (simp add: Sprintf_url_localhost sample_env_def)
  note answered = debugQueue_read_only [of sample_world sample_env "''localhost''" 6072 "[]"
      "\<lambda>r q'. []" sample_queue]
  note failed = debugQueue_read_only
      [of sample_world "sample_env\<lparr>httpDo := \<lambda>r. Inl (External ''connection refused'')\<rparr>"
        "''localhost''" 6072 "[]" "\<lambda>r q'. []" sample_queue]
  from answered ok
  have a: "new_calls sample_world (snd (debugQueue_Exec sample_env ''localhost'' 6072 [] sample_world)) =
     [HttpDo \<lparr>Method = ''GET'', URL = ''http://localhost:6072/debug/queue'',
              Header = [(''Accept'', ''text/plain'')]\<rparr>,
      StdoutWrite ''0 repo 1 true 5s HEAD@abc'', BodyClose] \<and>
     fst (debugQueue_Exec sample_env ''localhost'' 6072 [] sample_world) = None"
    by blast
  from answered
  have b: "queue_after (\<lambda>r q'. [])
     (new_calls sample_world (snd (debugQueue_Exec sample_env ''localhost'' 6072 [] sample_world)))
     sample_queue = sample_queue"
    by blast
  from failed refused
  have c: "new_calls sample_world
     (snd (debugQueue_Exec (sample_env\<lparr>httpDo := \<lambda>r. Inl (External ''connection refused'')\<rparr>)
        ''localhost'' 6072 [] sample_world)) =
     [HttpDo \<lparr>Method = ''GET'', URL = ''http://localhost:6072/debug/queue'',
              Header = [(''Accept'', ''text/plain'')]\<rparr>] \<and>
     fst (debugQueue_Exec (sample_env\<lparr>httpDo := \<lambda>r. Inl (External ''connection refused'')\<rparr>)
        ''localhost'' 6072 [] sample_world) = Some (External ''connection refused'')"
    by blast
  from a b c show ?thesis by simp
qed

section \<open>Properties against the specification's merge engine and queue\<close>

subsection \<open>A simulated merge\<close>

lemma remove_all_simulated: "foldl (\<lambda>d' s. remove_file True (Path s) d') d shards = d"
  by (induction shards arbitrary: d) (simp_all add: remove_file_def)

lemma Execute_bin_simulated: "Execute_bin True b d = d"
  by (simp add: Execute_bin_def Let_def write_file_def rename_file_def remove_all_simulated)

lemma Execute_bins_simulated: "foldl (\<lambda>d' b. Execute_bin True b d') d bins = d"
  by (induction bins arbitrary: d) (simp_all add: Execute_bin_simulated)

lemma Execute_simulated: "Simulate plan \<Longrightarrow> Execute plan d = (report_of plan, d)"
  by (simp add: Execute_def Execute_bins_simulated)

lemma report_of_Plan: "report_of (Plan naming shards t sim) = report_of (Plan naming shards t True)"
  by (simp add: report_of_def Plan_def)

lemma doMerge_spec_report:
  "fst (doMerge_spec naming dir sz sim store) =
     report_of (Plan naming (scan (store dir)) (sint sz) True)"
  by (simp add: doMerge_spec_def Let_def Execute_def report_of_Plan [of naming _ _ sim] split: prod.splits)

lemma doMerge_spec_simulated: "snd (doMerge_spec naming dir sz True store) = store"
  by (simp add: doMerge_spec_def Let_def Execute_simulated Plan_def)

lemma simulate_flag_declared:
  "BoolFlag ''simulate'' False ''if set, merging will be simulated''
   \<in> set (fs_flags (parse_FlagSet (debugMerge env)))"
  by (simp add: debugMerge_def parse_FlagSet_def NewFlagSet_def)

lemma Exec_debugMerge:
  "Exec (debugMerge env) =
     Some (\<lambda>vars args. debugMerge_Exec env (simulate vars) (targetSize vars) (index vars)
            (dbg vars) args)"
  by (simp add: debugMerge_def)

text \<open>
  Claim C2. The merge command hands the value of its \<^verbatim>\<open>simulate\<close> flag, which is false
  unless set, to \<^verbatim>\<open>doMerge\<close> as it is. A simulated merge (the merge engine being the one
  of the specification) leaves every shard directory as it was, files and contents, and
  reports the plan: the same report that the merge proper gives.
\<close>

theorem simulate_leaves_directory:
  "Exec (debugMerge env) =
     Some (\<lambda>vars args. debugMerge_Exec env (simulate vars) (targetSize vars) (index vars)
            (dbg vars) args) \<and>
   new_calls w (snd (debugMerge_Exec env sim t idx d args w)) =
     [DoMerge idx (t * 1024 * 1024) sim] \<and>
   BoolFlag ''simulate'' False ''if set, merging will be simulated''
     \<in> set (fs_flags (parse_FlagSet (debugMerge env))) \<and>
   snd (doMerge_spec naming dir sz True store) = store \<and>
   fst (doMerge_spec naming dir sz True store) =
     report_of (Plan naming (scan (store dir)) (sint sz) True) \<and>
   fst (doMerge_spec naming dir sz True store) = fst (doMerge_spec naming dir sz False store)"
  by (simp only: Exec_debugMerge debugMerge_Exec_calls simulate_flag_declared
      doMerge_spec_simulated doMerge_spec_report simp_thms)

theorem simulate_leaves_directory_witness:
  "new_calls sample_world
     (snd (debugMerge_Exec sample_env True 2000 ''/data/index'' False [] sample_world)) =
     [DoMerge ''/data/index'' 2097152000 True] \<and>
   snd (doMerge_spec sample_naming ''/data/index'' 20 True sample_store) ''/data/index'' =
     sample_store ''/data/index'' \<and>
   fst (doMerge_spec sample_naming ''/data/index'' 20 True sample_store) =
     [(''compound-a.zoekt'', [''a.zoekt'', ''d.zoekt''], 15)] \<and>
   snd (doMerge_spec sample_naming ''/data/index'' 20 False sample_store) ''/data/index'' \<noteq>
     sample_store ''/data/index''"
proof -
  note inst = simulate_leaves_directory [of sample_env sample_world True 2000 "''/data/index''"
      False "[]" sample_naming "''/data/index''" 20 sample_store]
  have calls: "new_calls sample_world
     (snd (debugMerge_Exec sample_env True 2000 ''/data/index'' False [] sample_world)) =
     [DoMerge ''/data/index'' 2097152000 True]"
    using inst by simp
  have same: "snd (doMerge_spec sample_naming ''/data/index'' 20 True sample_store) = sample_store"
    using inst by blast
  have "fst (doMerge_spec sample_naming ''/data/index'' 20 True sample_store) =
      fst (doMerge_spec sample_naming ''/data/index'' 20 False sample_store)"
    using inst by blast
  also have "\<dots> = [(''compound-a.zoekt'', [''a.zoekt'', ''d.zoekt''], 15)]"
    by code_simp
  finally have report: "fst (doMerge_spec sample_naming ''/data/index'' 20 True sample_store) =
      [(''compound-a.zoekt'', [''a.zoekt'', ''d.zoekt''], 15)]" .
  have changed: "snd (doMerge_spec sample_naming ''/data/index'' 20 False sample_store) ''/data/index'' \<noteq>
      sample_store ''/data/index''"
    by code_simp
  from calls same report changed show ?thesis by simp
qed

subsection \<open>The queue listing\<close>

lemma set_insert_entry: "set (insert_entry e xs) = insert e (set xs)"
  by (induction xs) auto

lemma length_insert_entry: "length (insert_entry e xs) = Suc (length xs)"
  by (induction xs) auto

lemma drains_before_total: "\<not> drains_before a b \<Longrightarrow> drains_before b a"
  by (auto simp: drains_before_def)

lemma drains_before_trans: "drains_before a b \<Longrightarrow> drains_before b c \<Longrightarrow> drains_before a c"
  by (auto simp: drains_before_def)

lemma sorted_insert_entry:
  "sorted_wrt drains_before xs \<Longrightarrow> sorted_wrt drains_before (insert_entry e xs)"
proof (induction xs)
  case Nil
  then show ?case by simp
next
  case (Cons x xs)
  show ?case
  proof (cases "drains_before x e")
    case True
    with Cons show ?thesis by (auto simp: set_insert_entry)
  next
    case False
    then have "drains_before e x" by (rule drains_before_total)
    with Cons.prems have "\<forall>y\<in>set (x # xs). drains_before e y"
      by (auto intro: drains_before_trans)
    with False Cons.prems show ?thesis by auto
  qed
qed

lemma set_List_entries: "set (List_entries q) = set q"
  by (induction q) (simp_all add: List_entries_def set_insert_entry)

lemma length_List_entries: "length (List_entries q) = length q"
  by (induction q) (simp_all add: List_entries_def length_insert_entry)

lemma sorted_List_entries: "sorted_wrt drains_before (List_entries q)"
  by (induction q) (simp_all add: List_entries_def sorted_insert_entry)

lemma Enqueue_keeps_EnqueuedAt:
  "rid \<in> RepositoryID ` set q \<Longrightarrow>
   map (\<lambda>e. (RepositoryID e, EnqueuedAt e)) (Enqueue now' rid prio bs q) =
   map (\<lambda>e. (RepositoryID e, EnqueuedAt e)) q"
  by (simp add: Enqueue_def)

lemma Enqueue_first:
  "rid \<notin> RepositoryID ` set q \<Longrightarrow>
   Enqueue now' rid prio bs q =
     q @ [\<lparr>RepositoryID = rid, Priority = prio, EnqueuedAt = now', DesiredBranches = bs\<rparr>]"
  by (simp add: Enqueue_def)

lemma length_queue_listing: "length (queue_listing now q repos) = length (queue_rows now q repos)"
  by (simp add: queue_listing_def)

lemma nth_queue_listing:
  "i < length (queue_rows now q repos) \<Longrightarrow>
   queue_listing now q repos ! i = (queue_rows now q repos ! i) i"
  by (simp add: queue_listing_def nth_enumerate_eq)

lemma length_queue_rows:
  "length (queue_rows now q repos) =
     length (List_entries q) + length (off_queue q repos)"
  by (simp add: queue_rows_def)

lemma queue_listing_on:
  assumes "i < length (List_entries q)"
  shows "queue_listing now q repos ! i =
     \<lparr>Position = i, row_Name = name_of repos (RepositoryID (List_entries q ! i)),
      row_ID = RepositoryID (List_entries q ! i), IsOnQueue = True,
      Age = render_age (now - EnqueuedAt (List_entries q ! i)),
      Branches = render_branches (DesiredBranches (List_entries q ! i))\<rparr>"
proof -
  from assms have "i < length (queue_rows now q repos)" by (simp add: length_queue_rows)
  then have "queue_listing now q repos ! i = (queue_rows now q repos ! i) i"
    by (rule nth_queue_listing)
  with assms show ?thesis by (simp add: queue_rows_def nth_append)
qed

lemma queue_listing_off:
  assumes "j < length (off_queue q repos)"
  shows "queue_listing now q repos ! (length (List_entries q) + j) =
     \<lparr>Position = length (List_entries q) + j,
      row_Name = repo_Name (off_queue q repos ! j),
      row_ID = repo_ID (off_queue q repos ! j),
      IsOnQueue = False, Age = ''-'',
      Branches = render_branches
        (repo_IndexedBranches (off_queue q repos ! j))\<rparr>"
proof -
  from assms have "length (List_entries q) + j < length (queue_rows now q repos)"
    by (simp add: length_queue_rows)
  then have "queue_listing now q repos ! (length (List_entries q) + j) =
      (queue_rows now q repos ! (length (List_entries q) + j)) (length (List_entries q) + j)"
    by (rule nth_queue_listing)
  with assms show ?thesis by (simp add: queue_rows_def nth_append)
qed

lemma queue_listing_Position:
  assumes "i < length (queue_listing now q repos)"
  shows "Position (queue_listing now q repos ! i) = i"
proof (cases "i < length (List_entries q)")
  case True
  then show ?thesis by (simp add: queue_listing_on)
next
  case False
  then obtain j where i: "i = length (List_entries q) + j"
    by (metis le_add_diff_inverse not_less)
  with assms have "j < length (off_queue q repos)"
    by (simp add: length_queue_listing length_queue_rows)
  then show ?thesis unfolding i by (simp add: queue_listing_off)
qed

lemma queue_listing_IsOnQueue:
  assumes "row \<in> set (queue_listing now q repos)"
  shows "IsOnQueue row = (row_ID row \<in> RepositoryID ` set q)"
proof -
  from assms obtain i where i: "i < length (queue_listing now q repos)"
    and row: "row = queue_listing now q repos ! i"
    by (auto simp: in_set_conv_nth)
  show ?thesis
  proof (cases "i < length (List_entries q)")
    case True
    then have "List_entries q ! i \<in> set q"
      using set_List_entries nth_mem by blast
    with True row show ?thesis by (simp add: queue_listing_on)
  next
    case False
    then obtain j where ij: "i = length (List_entries q) + j"
      by (metis le_add_diff_inverse not_less)
    with i have j: "j < length (off_queue q repos)"
      by (simp add: length_queue_listing length_queue_rows)
    then have "off_queue q repos ! j \<in> set (off_queue q repos)"
      by (rule nth_mem)
    then have "repo_ID (off_queue q repos ! j) \<notin> RepositoryID ` set q"
      by (simp add: off_queue_def)
    with j row ij show ?thesis by (simp add: queue_listing_off)
  qed
qed

lemma help_columns_longHelp:
  "help_columns (TrimSpace longHelp) =
     [''Position'', ''Name'', ''ID'', ''IsOnQueue'', ''Age'', ''Branches'']"
  by code_simp

lemma LongHelp_debugQueue: "LongHelp (debugQueue env) = TrimSpace longHelp"
  by (simp add: debugQueue_def)

text \<open>
  Claim C6. The help of the queue command names the columns Position, Name, ID,
  IsOnQueue, Age and Branches, and the listing of the specification has them as
  described. The queue entries come first, in the order in which the queue drains
  (highest priority first, oldest first among equals), then the repositories without an
  entry. \<open>Position\<close> is the row's index from 0. \<open>IsOnQueue\<close> holds exactly when the
  repository has a queue entry. For a row with an entry, \<open>Age\<close> is the time since
  \<open>EnqueuedAt\<close> and \<open>Branches\<close> are the entry's desired branches; for a row without,
  \<open>Age\<close> is \<^verbatim>\<open>-\<close> and \<open>Branches\<close> are the indexed branches; branches are rendered as
  comma-separated \<^verbatim>\<open>name@commit\<close>. Updating an entry that is on the queue changes neither
  which repositories are on it nor any \<open>EnqueuedAt\<close>.
\<close>

theorem queue_listing_columns:
  "help_columns (LongHelp (debugQueue env)) =
     [''Position'', ''Name'', ''ID'', ''IsOnQueue'', ''Age'', ''Branches''] \<and>
   length (queue_listing now q repos) = length (List_entries q) + length (off_queue q repos) \<and>
   set (List_entries q) = set q \<and>
   sorted_wrt drains_before (List_entries q) \<and>
   (\<forall>i < length (queue_listing now q repos). Position (queue_listing now q repos ! i) = i) \<and>
   (\<forall>row \<in> set (queue_listing now q repos).
      IsOnQueue row = (row_ID row \<in> RepositoryID ` set q)) \<and>
   (\<forall>i < length (List_entries q).
      queue_listing now q repos ! i =
        \<lparr>Position = i, row_Name = name_of repos (RepositoryID (List_entries q ! i)),
         row_ID = RepositoryID (List_entries q ! i), IsOnQueue = True,
         Age = render_age (now - EnqueuedAt (List_entries q ! i)),
         Branches = render_branches (DesiredBranches (List_entries q ! i))\<rparr>) \<and>
   (\<forall>j < length (off_queue q repos).
      queue_listing now q repos ! (length (List_entries q) + j) =
        \<lparr>Position = length (List_entries q) + j,
         row_Name = repo_Name (off_queue q repos ! j),
         row_ID = repo_ID (off_queue q repos ! j),
         IsOnQueue = False, Age = ''-'',
         Branches = render_branches (repo_IndexedBranches (off_queue q repos ! j))\<rparr>) \<and>
   render_branches [(n1, c1), (n2, c2)] = n1 @ ''@'' @ c1 @ '','' @ n2 @ ''@'' @ c2 \<and>
   (\<forall>rid prio bs now'.
      rid \<in> RepositoryID ` set q \<longrightarrow>
      map (\<lambda>e. (RepositoryID e, EnqueuedAt e)) (Enqueue now' rid prio bs q) =
      map (\<lambda>e. (RepositoryID e, EnqueuedAt e)) q)"
proof (intro conjI allI impI ballI)
  show "help_columns (LongHelp (debugQueue env)) =
     [''Position'', ''Name'', ''ID'', ''IsOnQueue'', ''Age'', ''Branches'']"
    by (simp only: LongHelp_debugQueue help_columns_longHelp)
  show "length (queue_listing now q repos) = length (List_entries q) + length (off_queue q repos)"
    by (simp add: length_queue_listing length_queue_rows)
  show "set (List_entries q) = set q"
    by (rule set_List_entries)
  show "sorted_wrt drains_before (List_entries q)"
    by (rule sorted_List_entries)
  show "render_branches [(n1, c1), (n2, c2)] = n1 @ ''@'' @ c1 @ '','' @ n2 @ ''@'' @ c2"
    by simp
qed (simp_all only: queue_listing_Position queue_listing_IsOnQueue queue_listing_on
    queue_listing_off Enqueue_keeps_EnqueuedAt)

theorem queue_listing_columns_witness:
  "queue_listing 10 sample_queue sample_repos ! 1 =
     \<lparr>Position = 1, row_Name = ''A'', row_ID = 1, IsOnQueue = True, Age = ''10s'',
      Branches = ''main@c2''\<rparr> \<and>
   queue_listing 10 sample_queue sample_repos ! 3 =
     \<lparr>Position = 3, row_Name = ''D'', row_ID = 4, IsOnQueue = False, Age = ''-'',
      Branches = ''main@e1''\<rparr> \<and>
   map (\<lambda>e. (RepositoryID e, EnqueuedAt e)) sample_queue = [(1, 0), (2, 1), (3, 2)]"
proof -
  note inst = queue_listing_columns [of sample_env 10 sample_queue sample_repos]
  have on: "(1::nat) < length (List_entries sample_queue)"
    by code_simp
  have off: "(0::nat) < length (off_queue sample_queue sample_repos)"
    by code_simp
  have len: "length (List_entries sample_queue) = 3"
    by code_simp
  from inst on have "queue_listing 10 sample_queue sample_repos ! 1 =
        \<lparr>Position = 1, row_Name = name_of sample_repos (RepositoryID (List_entries sample_queue ! 1)),
         row_ID = RepositoryID (List_entries sample_queue ! 1), IsOnQueue = True,
         Age = render_age (10 - EnqueuedAt (List_entries sample_queue ! 1)),
         Branches = render_branches (DesiredBranches (List_entries sample_queue ! 1))\<rparr>"
    by blast
  also have "\<dots> = \<lparr>Position = 1, row_Name = ''A'', row_ID = 1, IsOnQueue = True, Age = ''10s'',
      Branches = ''main@c2''\<rparr>"
    by code_simp
  finally have row1: "queue_listing 10 sample_queue sample_repos ! 1 =
     \<lparr>Position = 1, row_Name = ''A'', row_ID = 1, IsOnQueue = True, Age = ''10s'',
      Branches = ''main@c2''\<rparr>" .
  from inst off have "queue_listing 10 sample_queue sample_repos ! (length (List_entries sample_queue) + 0) =
        \<lparr>Position = length (List_entries sample_queue) + 0,
         row_Name = repo_Name (off_queue sample_queue sample_repos ! 0),
         row_ID = repo_ID (off_queue sample_queue sample_repos ! 0),
         IsOnQueue = False, Age = ''-'',
         Branches = render_branches (repo_IndexedBranches (off_queue sample_queue sample_repos ! 0))\<rparr>"
    by blast
  also have "\<dots> = \<lparr>Position = 3, row_Name = ''D'', row_ID = 4, IsOnQueue = False, Age = ''-'',
      Branches = ''main@e1''\<rparr>"
    by code_simp
  finally have row3: "queue_listing 10 sample_queue sample_repos ! 3 =
     \<lparr>Position = 3, row_Name = ''D'', row_ID = 4, IsOnQueue = False, Age = ''-'',
      Branches = ''main@e1''\<rparr>"
    by (simp add: len)
  have kept: "map (\<lambda>e. (RepositoryID e, EnqueuedAt e)) sample_queue = [(1, 0), (2, 1), (3, 2)]"
    by code_simp
  from row1 row3 kept show ?thesis by simp
qed

end
